theory Spec2Isabelle
  imports Main "HOL-Library.Sublist"
begin

section \<open>The two PyFlink jobs: FirehoseSink/main.py and S3Sink/main.py\<close>

text \<open>
  Both jobs are a module body (environment, local-mode switch) followed by
  \<open>main()\<close>: read the runtime properties, declare a source and a sink table,
  submit one \<open>INSERT INTO ... SELECT\<close>, and wait for it in local mode only.
  The embedding keeps the source's names. Calls into the engine are recorded as
  a list of effects, in program order; an uncaught Python exception is the
  \<open>Inl\<close> branch of a sum.
\<close>

subsection \<open>Python values as \<open>json.loads\<close> returns them\<close>

text \<open>
  A dict is an association list in insertion order; \<open>json.loads\<close> yields
  distinct keys, and lookup is \<open>map_of\<close>. A JSON number with a fraction or an
  exponent is a \<open>PFloat\<close>: the program never computes with one, so only its
  Python type is kept.
\<close>

datatype pyval =
    PNone
  | PBool bool
  | PInt int
  | PFloat
  | PStr string
  | PList "pyval list"
  | PDict "(string \<times> pyval) list"

datatype pytype = NoneType | bool_t | int_t | float_t | str_t | list_t | dict_t

fun type_of :: "pyval \<Rightarrow> pytype" where
  "type_of PNone = NoneType"
| "type_of (PBool _) = bool_t"
| "type_of (PInt _) = int_t"
| "type_of PFloat = float_t"
| "type_of (PStr _) = str_t"
| "type_of (PList _) = list_t"
| "type_of (PDict _) = dict_t"

fun type_name :: "pytype \<Rightarrow> string" where
  "type_name NoneType = ''NoneType''"
| "type_name bool_t = ''bool''"
| "type_name int_t = ''int''"
| "type_name float_t = ''float''"
| "type_name str_t = ''str''"
| "type_name list_t = ''list''"
| "type_name dict_t = ''dict''"

text \<open>
  The exceptions the two programs can raise before the first table is declared.
  \<open>NotIterable\<close>, \<open>NotSubscriptable\<close> and \<open>BadIndex\<close> are Python's
  \<open>TypeError\<close>; \<open>OSError\<close> is a file that cannot be opened or read, and
  \<open>JSONDecodeError\<close> a file whose contents are not JSON.
\<close>

datatype error =
    NotIterable pytype
  | NotSubscriptable pytype
  | BadIndex pytype
  | KeyError string
  | OSError
  | JSONDecodeError

text \<open>
  The last line of the traceback: exception class and message. A \<open>KeyError\<close>
  shows the \<open>repr\<close> of the key, which for the keys of these programs is the key
  between single quotes. (The wording of \<open>BadIndex str_t\<close> is that of CPython
  up to 3.10.)
\<close>

fun message :: "error \<Rightarrow> string" where
  "message (NotIterable t) =
     ''TypeError: '' @ [CHR 0x27] @ type_name t @ [CHR 0x27] @ '' object is not iterable''"
| "message (NotSubscriptable t) =
     ''TypeError: '' @ [CHR 0x27] @ type_name t @ [CHR 0x27] @ '' object is not subscriptable''"
| "message (BadIndex t) =
     (if t = list_t then ''TypeError: list indices must be integers or slices, not str''
      else ''TypeError: string indices must be integers'')"
| "message (KeyError k) = ''KeyError: '' @ [CHR 0x27] @ k @ [CHR 0x27]"
| "message OSError = ''OSError''"
| "message JSONDecodeError = ''json.decoder.JSONDecodeError''"

text \<open>\<open>for x in v\<close>: the elements of a list, the keys of a dict, the
  one-character strings of a str; anything else is not iterable.\<close>

fun py_iter :: "pyval \<Rightarrow> error + pyval list" where
  "py_iter (PList xs) = Inr xs"
| "py_iter (PDict kvs) = Inr (map (PStr \<circ> fst) kvs)"
| "py_iter (PStr s) = Inr (map (\<lambda>c. PStr [c]) s)"
| "py_iter v = Inl (NotIterable (type_of v))"

text \<open>\<open>v[k]\<close> for a str key \<open>k\<close>.\<close>

fun py_getitem :: "pyval \<Rightarrow> string \<Rightarrow> error + pyval" where
  "py_getitem (PDict kvs) k =
     (case map_of kvs k of None \<Rightarrow> Inl (KeyError k) | Some v \<Rightarrow> Inr v)"
| "py_getitem (PList _) k = Inl (BadIndex list_t)"
| "py_getitem (PStr _) k = Inl (BadIndex str_t)"
| "py_getitem v k = Inl (NotSubscriptable (type_of v))"

subsection \<open>The local-mode switch (both files, lines 52-54)\<close>

text \<open>
  \<open>os.environ\<close> is a map from names to strings; \<open>os.environ.get\<close> gives
  \<open>None\<close> for a name that is not set, and both \<open>None\<close> and the empty string
  are false in a condition.
\<close>

type_synonym environ = "string \<rightharpoonup> string"

definition truthy_get :: "string option \<Rightarrow> bool" where
  "truthy_get r = (case r of None \<Rightarrow> False | Some s \<Rightarrow> s \<noteq> [])"

definition FirehoseSink_is_local :: "environ \<Rightarrow> bool" where
  "FirehoseSink_is_local environ = (if truthy_get (environ ''IS_LOCAL'') then True else False)"

definition S3Sink_is_local :: "environ \<Rightarrow> bool" where
  "S3Sink_is_local environ = (if truthy_get (environ ''IS_LOCAL'') then True else False)"

subsection \<open>\<open>property_map\<close> (FirehoseSink lines 87-90, S3Sink lines 102-105)\<close>

text \<open>
  The loop over the elements of \<open>props\<close>; falling off its end returns
  \<open>None\<close>. The function is the same text in both files.
\<close>

fun property_map_loop :: "pyval list \<Rightarrow> string \<Rightarrow> error + pyval" where
  "property_map_loop [] property_group_id = Inr PNone"
| "property_map_loop (prop # rest) property_group_id =
     (case py_getitem prop ''PropertyGroupId'' of
        Inl e \<Rightarrow> Inl e
      | Inr g \<Rightarrow>
          if g = PStr property_group_id then py_getitem prop ''PropertyMap''
          else property_map_loop rest property_group_id)"

definition property_map :: "pyval \<Rightarrow> string \<Rightarrow> error + pyval" where
  "property_map props property_group_id =
     (case py_iter props of
        Inl e \<Rightarrow> Inl e
      | Inr xs \<Rightarrow> property_map_loop xs property_group_id)"

subsection \<open>Effects, and the text of a formatted string\<close>

text \<open>
  A string built by \<open>str.format\<close> or an f-string from a value of the
  runtime properties is its literal pieces and the values put into the holes.
  A str value appears as it is; the text Python gives any other value is not
  needed below. Strings built from strs alone (paths, printed lines) are plain
  strings.
\<close>

datatype piece = Lit string | Val pyval

type_synonym fstring = "piece list"

text \<open>
  The statements handed to \<open>table_env.execute_sql\<close>, by their abstract
  syntax: a column is name, type and \<open>NOT NULL\<close>; a table has columns, the
  \<open>PARTITIONED BY\<close> list and the \<open>WITH\<close> options in the order written; the
  insert names the target, the select list (column and \<open>AS\<close> alias) and the
  source table. An option value is the text between its quotes.
\<close>

datatype sql_type = INT_T | DOUBLE_T | NUMERIC_T nat nat | TIMESTAMP_T nat | TIMESTAMP_LTZ_T nat

record column =
  col_name :: string
  col_type :: sql_type
  not_null :: bool

record table =
  table_name :: string
  columns :: "column list"
  partitioned_by :: "string list"
  options :: "(string \<times> fstring) list"

record insert_select =
  target :: string
  select_list :: "(string \<times> string option) list"
  from_table :: string

datatype statement = CREATE_TABLE table | INSERT_INTO insert_select

datatype effect =
    Print string
  | LogInfo fstring
  | SetString string string
  | ExecuteSql statement
  | Wait

text \<open>A run: what was done, in order, and how it ended.\<close>

type_synonym 'a run = "effect list \<times> (error + 'a)"

subsection \<open>The module body (lines 40-72 of FirehoseSink, 40-87 of S3Sink)\<close>

text \<open>
  What the module body leaves behind for \<open>main\<close>: the two globals.
  \<open>CURRENT_DIR\<close> and the directory of the \<open>pyflink\<close> package are inputs.
\<close>

record globals =
  APPLICATION_PROPERTIES_FILE_PATH :: string
  is_local :: bool

definition FirehoseSink_module :: "environ \<Rightarrow> string \<Rightarrow> string \<Rightarrow> effect list \<times> globals" where
  "FirehoseSink_module environ CURRENT_DIR pyflink_dir =
     (if FirehoseSink_is_local environ then
        ([SetString ''pipeline.jars''
            (''file:///'' @ CURRENT_DIR @ ''/target/pyflink-dependencies.jar''),
          Print (''PyFlink home: '' @ pyflink_dir),
          Print (''Logging directory: '' @ pyflink_dir @ ''/log'')],
         \<lparr>APPLICATION_PROPERTIES_FILE_PATH = ''application_properties.json'',
          is_local = True\<rparr>)
      else
        ([],
         \<lparr>APPLICATION_PROPERTIES_FILE_PATH = ''/etc/flink/application_properties.json'',
          is_local = False\<rparr>))"

definition S3Sink_module :: "environ \<Rightarrow> string \<Rightarrow> string \<Rightarrow> effect list \<times> globals" where
  "S3Sink_module environ CURRENT_DIR pyflink_dir =
     (if S3Sink_is_local environ then
        ([SetString ''pipeline.jars''
            (''file:///'' @ CURRENT_DIR @ ''/target/pyflink-dependencies.jar''),
          Print (''PyFlink home: '' @ pyflink_dir),
          Print (''Logging directory: '' @ pyflink_dir @ ''/log''),
          SetString ''execution.checkpointing.mode'' ''EXACTLY_ONCE'',
          SetString ''execution.checkpointing.interval'' ''1 min''],
         \<lparr>APPLICATION_PROPERTIES_FILE_PATH = ''application_properties.json'',
          is_local = True\<rparr>)
      else
        ([],
         \<lparr>APPLICATION_PROPERTIES_FILE_PATH = ''/etc/flink/application_properties.json'',
          is_local = False\<rparr>))"

subsection \<open>\<open>get_application_properties\<close> (FirehoseSink lines 76-83, S3Sink lines 91-98)\<close>

text \<open>
  What is at a path: nothing that \<open>os.path.isfile\<close> accepts, a file that
  cannot be opened, a file whose contents \<open>json.loads\<close> rejects, or a file
  with the value \<open>json.loads\<close> returns. When the file is not there the
  function prints and falls off its end, which returns \<open>None\<close>.
\<close>

datatype file_at = NoFile | Unreadable | NotJson | Json pyval

type_synonym filesystem = "string \<Rightarrow> file_at"

definition get_application_properties :: "globals \<Rightarrow> filesystem \<Rightarrow> pyval run" where
  \<open>get_application_properties g fs =
     (case fs (APPLICATION_PROPERTIES_FILE_PATH g) of
        NoFile \<Rightarrow>
          ([Print (''A file at "'' @ APPLICATION_PROPERTIES_FILE_PATH g @ ''" was not found'')],
           Inr PNone)
      | Unreadable \<Rightarrow> ([], Inl OSError)
      | NotJson \<Rightarrow> ([], Inl JSONDecodeError)
      | Json properties \<Rightarrow> ([], Inr properties))\<close>

subsection \<open>FirehoseSink: the three statements and \<open>main\<close> (lines 93-173)\<close>

definition FirehoseSink_sensor_readings :: table where
  "FirehoseSink_sensor_readings =
     \<lparr>table_name = ''sensor_readings'',
      columns =
        [\<lparr>col_name = ''sensor_id'', col_type = INT_T, not_null = False\<rparr>,
         \<lparr>col_name = ''temperature'', col_type = DOUBLE_T, not_null = False\<rparr>,
         \<lparr>col_name = ''measurement_time'', col_type = TIMESTAMP_T 3, not_null = False\<rparr>],
      partitioned_by = [''sensor_id''],
      options =
        [(''connector'', [Lit ''datagen'']),
         (''fields.sensor_id.min'', [Lit ''10'']),
         (''fields.sensor_id.max'', [Lit ''20'']),
         (''fields.temperature.min'', [Lit ''0'']),
         (''fields.temperature.max'', [Lit ''100''])]\<rparr>"

definition FirehoseSink_output :: "pyval \<Rightarrow> pyval \<Rightarrow> table" where
  "FirehoseSink_output output_delivery_stream_name output_delivery_stream_region =
     \<lparr>table_name = ''output'',
      columns =
        [\<lparr>col_name = ''sensor_id'', col_type = INT_T, not_null = False\<rparr>,
         \<lparr>col_name = ''temperature_f'', col_type = DOUBLE_T, not_null = False\<rparr>,
         \<lparr>col_name = ''measurement_time'', col_type = TIMESTAMP_T 3, not_null = False\<rparr>],
      partitioned_by = [],
      options =
        [(''connector'', [Lit ''firehose'']),
         (''delivery-stream'', [Val output_delivery_stream_name]),
         (''aws.region'', [Val output_delivery_stream_region]),
         (''format'', [Lit ''json'']),
         (''json.timestamp-format.standard'', [Lit ''ISO-8601''])]\<rparr>"

definition FirehoseSink_insert :: insert_select where
  "FirehoseSink_insert =
     \<lparr>target = ''output'',
      select_list =
        [(''sensor_id'', None), (''temperature'', None), (''measurement_time'', None)],
      from_table = ''sensor_readings''\<rparr>"

definition FirehoseSink_main :: "globals \<Rightarrow> filesystem \<Rightarrow> unit run" where
  "FirehoseSink_main g fs =
     (case get_application_properties g fs of
        (out, Inl e) \<Rightarrow> (out, Inl e)
      | (out, Inr props) \<Rightarrow>
     (case property_map props ''OutputDeliveryStream0'' of
        Inl e \<Rightarrow> (out, Inl e)
      | Inr m1 \<Rightarrow>
     (case py_getitem m1 ''stream.name'' of
        Inl e \<Rightarrow> (out, Inl e)
      | Inr output_delivery_stream_name \<Rightarrow>
     (case property_map props ''OutputDeliveryStream0'' of
        Inl e \<Rightarrow> (out, Inl e)
      | Inr m2 \<Rightarrow>
     (case py_getitem m2 ''aws.region'' of
        Inl e \<Rightarrow> (out, Inl e)
      | Inr output_delivery_stream_region \<Rightarrow>
          (out @
           [LogInfo [Lit ''Output Firehose delivery stream: '', Val output_delivery_stream_name,
                     Lit '', region: '', Val output_delivery_stream_region],
            ExecuteSql (CREATE_TABLE FirehoseSink_sensor_readings),
            ExecuteSql (CREATE_TABLE
              (FirehoseSink_output output_delivery_stream_name output_delivery_stream_region)),
            ExecuteSql (INSERT_INTO FirehoseSink_insert)] @
           (if is_local g then [Wait] else []),
           Inr ()))))))"

subsection \<open>S3Sink: the three statements and \<open>main\<close> (lines 108-184)\<close>

definition S3Sink_sensor_readings :: table where
  "S3Sink_sensor_readings =
     \<lparr>table_name = ''sensor_readings'',
      columns =
        [\<lparr>col_name = ''sensor_id'', col_type = INT_T, not_null = False\<rparr>,
         \<lparr>col_name = ''temperature'', col_type = NUMERIC_T 6 2, not_null = False\<rparr>,
         \<lparr>col_name = ''measurement_time'', col_type = TIMESTAMP_T 3, not_null = False\<rparr>],
      partitioned_by = [''sensor_id''],
      options =
        [(''connector'', [Lit ''datagen'']),
         (''fields.sensor_id.min'', [Lit ''10'']),
         (''fields.sensor_id.max'', [Lit ''20'']),
         (''fields.temperature.min'', [Lit ''0'']),
         (''fields.temperature.max'', [Lit ''100''])]\<rparr>"

definition S3Sink_sensors_out :: "pyval \<Rightarrow> table" where
  "S3Sink_sensors_out s3_bucket_name =
     \<lparr>table_name = ''sensors_out'',
      columns =
        [\<lparr>col_name = ''sensor_id'', col_type = INT_T, not_null = True\<rparr>,
         \<lparr>col_name = ''temperature'', col_type = NUMERIC_T 6 2, not_null = True\<rparr>,
         \<lparr>col_name = ''time'', col_type = TIMESTAMP_LTZ_T 3, not_null = True\<rparr>],
      partitioned_by = [''sensor_id''],
      options =
        [(''connector'', [Lit ''filesystem'']),
         (''path'', [Lit ''s3a://'', Val s3_bucket_name,
                     Lit ''/pyflinkl-filesink-example-output/'']),
         (''format'', [Lit ''json'']),
         (''json.timestamp-format.standard'', [Lit ''ISO-8601'']),
         (''sink.partition-commit.policy.kind'', [Lit ''success-file'']),
         (''sink.partition-commit.delay'', [Lit ''1 min''])]\<rparr>"

definition S3Sink_insert :: insert_select where
  "S3Sink_insert =
     \<lparr>target = ''sensors_out'',
      select_list =
        [(''sensor_id'', None), (''temperature'', None), (''measurement_time'', Some ''time'')],
      from_table = ''sensor_readings''\<rparr>"

definition S3Sink_main :: "globals \<Rightarrow> filesystem \<Rightarrow> unit run" where
  "S3Sink_main g fs =
     (case get_application_properties g fs of
        (out, Inl e) \<Rightarrow> (out, Inl e)
      | (out, Inr props) \<Rightarrow>
     (case property_map props ''bucket'' of
        Inl e \<Rightarrow> (out, Inl e)
      | Inr m \<Rightarrow>
     (case py_getitem m ''name'' of
        Inl e \<Rightarrow> (out, Inl e)
      | Inr s3_bucket_name \<Rightarrow>
          (out @
           [LogInfo [Lit ''Output bucket: '', Val s3_bucket_name],
            ExecuteSql (CREATE_TABLE S3Sink_sensor_readings),
            ExecuteSql (CREATE_TABLE (S3Sink_sensors_out s3_bucket_name)),
            ExecuteSql (INSERT_INTO S3Sink_insert)] @
           (if is_local g then [Wait] else []),
           Inr ()))))"

text \<open>
  The process: an uncaught exception prints its traceback and ends the
  interpreter with status 1; a \<open>main\<close> that returns ends it with status 0.
\<close>

definition exit_status :: "'a run \<Rightarrow> nat" where
  "exit_status r = (case snd r of Inl e \<Rightarrow> 1 | Inr v \<Rightarrow> 0)"

subsection \<open>Vocabulary of the statements below\<close>

text \<open>
  An element of the properties list as Managed Flink writes it: an object with
  a \<open>PropertyGroupId\<close> and a \<open>PropertyMap\<close>. An element has the group id
  \<open>gid\<close> when its \<open>PropertyGroupId\<close> is that str.
\<close>

fun is_group :: "pyval \<Rightarrow> bool" where
  "is_group (PDict kvs) =
     (map_of kvs ''PropertyGroupId'' \<noteq> None \<and> map_of kvs ''PropertyMap'' \<noteq> None)"
| "is_group v = False"

definition has_group_id :: "string \<Rightarrow> pyval \<Rightarrow> bool" where
  "has_group_id gid p = (py_getitem p ''PropertyGroupId'' = Inr (PStr gid))"

text \<open>The expression \<open>property_map(props, gid)[key]\<close> of both \<open>main\<close>s.\<close>

definition config_value :: "pyval \<Rightarrow> string \<Rightarrow> string \<Rightarrow> error + pyval" where
  "config_value props gid key =
     (case property_map props gid of Inl e \<Rightarrow> Inl e | Inr m \<Rightarrow> py_getitem m key)"

text \<open>
  What the operator reads of a run: the printed lines and, for a run ended by an
  exception, the last line of its traceback. A run says a name when one of
  them contains it.
\<close>

fun printed :: "effect \<Rightarrow> string list" where
  "printed (Print s) = [s]"
| "printed e = []"

definition says :: "'a run \<Rightarrow> string \<Rightarrow> bool" where
  "says r name =
     (list_ex (sublist name) (concat (map printed (fst r)))
      \<or> (case snd r of Inl e \<Rightarrow> sublist name (message e) | Inr v \<Rightarrow> False))"

text \<open>The statements a run handed to the engine, and the table it declared under a name.\<close>

fun executed :: "effect \<Rightarrow> statement list" where
  "executed (ExecuteSql st) = [st]"
| "executed e = []"

definition statements :: "'a run \<Rightarrow> statement list" where
  "statements r = concat (map executed (fst r))"

fun created :: "statement \<Rightarrow> table list" where
  "created (CREATE_TABLE t) = [t]"
| "created (INSERT_INTO i) = []"

definition declared :: "'a run \<Rightarrow> string \<Rightarrow> table option" where
  "declared r name = find (\<lambda>t. table_name t = name) (concat (map created (statements r)))"



text \<open>The configuration keys a list of effects sets, with their values.\<close>

fun setting :: "effect \<Rightarrow> (string \<times> string) list" where
  "setting (SetString k v) = [(k, v)]"
| "setting e = []"

definition settings :: "effect list \<Rightarrow> string \<rightharpoonup> string" where
  "settings es = map_of (concat (map setting es))"

definition option_of :: "table \<Rightarrow> string \<Rightarrow> fstring option" where
  "option_of t key = map_of (options t) key"

text \<open>An option's text is supplied by the runtime properties when it has a hole.\<close>

fun is_hole :: "piece \<Rightarrow> bool" where
  "is_hole (Val v) = True"
| "is_hole (Lit s) = False"

definition from_properties :: "fstring \<Rightarrow> bool" where
  "from_properties t = list_ex is_hole t"

text \<open>
  What \<open>INSERT INTO target SELECT c1, ..., cn FROM source\<close> asks for when
  every select item is a plain column: the value of the i-th selected column
  becomes the value of the i-th column of the target. A row maps column names to
  values; \<open>source_column\<close> finds the declaration of a selected column.
\<close>

definition source_column :: "table \<Rightarrow> string \<Rightarrow> column option" where
  "source_column src c = find (\<lambda>d. col_name d = c) (columns src)"

definition insert_row :: "insert_select \<Rightarrow> table \<Rightarrow> (string \<rightharpoonup> 'v) \<Rightarrow> (string \<rightharpoonup> 'v)" where
  "insert_row ins snk row =
     (\<lambda>n. case map_of (zip (map col_name (columns snk)) (map fst (select_list ins))) n of
            None \<Rightarrow> None
          | Some c \<Rightarrow> row c)"

text \<open>
  The select list written with its output names, and the test that every
  selected column is stored in a column of its own type.
\<close>

definition output_names :: "insert_select \<Rightarrow> string list" where
  "output_names ins = map (\<lambda>(c, a). case a of None \<Rightarrow> c | Some n \<Rightarrow> n) (select_list ins)"

definition same_types :: "table \<Rightarrow> insert_select \<Rightarrow> table \<Rightarrow> bool" where
  "same_types src ins snk =
     (map (\<lambda>(c, a). map_option col_type (source_column src c)) (select_list ins)
      = map (\<lambda>d. Some (col_type d)) (columns snk))"

subsection \<open>The commit protocol of the specification\<close>

text \<open>
  The jobs leave checkpointing and the commit of partitions to the engine; the
  specification describes both. The definitions of this subsection follow its
  sections 3 and 4.
\<close>

text \<open>
  Modelled from the spec: the status of a checkpoint (section 3). The checkpoint
  coordinator is the stream engine's, and no code of it is in the repository.
\<close>

datatype checkpoint_status = PENDING | DURABLE | ABORTED

text \<open>
  Modelled from the spec: the coordinator's state (sections 3 and 4.3), absent from
  the repository: the id given last, the status of every checkpoint begun, and the
  last durable checkpoint it publishes.
\<close>

record coordinator =
  previous_id :: nat
  status_of :: "nat \<rightharpoonup> checkpoint_status"
  last_durable :: nat

text \<open>
  Modelled from the spec: what the coordinator of section 4.3 reacts to, absent from
  the repository: the periodic or external trigger, the writers' acknowledgements
  (one success flag per writer) and the timeout.
\<close>

datatype coordinator_event = Trigger | Acknowledged "bool list" | Timeout

text \<open>
  Modelled from the spec: the coordinator before its first checkpoint (section 4.3),
  absent from the repository.
\<close>

definition coordinator_init :: coordinator where
  "coordinator_init = \<lparr>previous_id = 0, status_of = Map.empty, last_durable = 0\<rparr>"

text \<open>
  Modelled from the spec: whether the checkpoint begun last is still
  \<open>PENDING\<close> (section 3), a test of the absent coordinator.
\<close>

definition is_pending :: "coordinator \<Rightarrow> bool" where
  "is_pending c = (status_of c (previous_id c) = Some PENDING)"

text \<open>
  Modelled from the spec: the algorithm of section 4.3, absent from the repository.
  A trigger allocates \<open>previous_id + 1\<close> and begins its barrier, unless
  the checkpoint begun last is pending (the coordinator will not start the next
  one); all acknowledgements successful make the pending checkpoint
  \<open>DURABLE\<close> and publish it as last durable, any failure or a timeout
  make it \<open>ABORTED\<close>.
\<close>

fun coordinator_step :: "coordinator \<Rightarrow> coordinator_event \<Rightarrow> coordinator" where
  "coordinator_step c Trigger =
     (if is_pending c then c
      else c\<lparr>previous_id := previous_id c + 1,
             status_of := (status_of c)(previous_id c + 1 \<mapsto> PENDING)\<rparr>)"
| "coordinator_step c (Acknowledged acks) =
     (if is_pending c then
        (if list_all id acks
         then c\<lparr>status_of := (status_of c)(previous_id c \<mapsto> DURABLE),
                last_durable := previous_id c\<rparr>
         else c\<lparr>status_of := (status_of c)(previous_id c \<mapsto> ABORTED)\<rparr>)
      else c)"
| "coordinator_step c Timeout =
     (if is_pending c then c\<lparr>status_of := (status_of c)(previous_id c \<mapsto> ABORTED)\<rparr>
      else c)"

text \<open>
  Modelled from the spec: the absent coordinator of section 4.3 after a sequence of
  events.
\<close>

definition coordinator_run :: "coordinator_event list \<Rightarrow> coordinator" where
  "coordinator_run evs = foldl coordinator_step coordinator_init evs"

text \<open>
  Modelled from the spec: a checkpoint of the absent coordinator that has reached
  \<open>DURABLE\<close> or \<open>ABORTED\<close> (section 3).
\<close>

definition finished :: "coordinator \<Rightarrow> nat \<Rightarrow> bool" where
  "finished c n = (status_of c n = Some DURABLE \<or> status_of c n = Some ABORTED)"

text \<open>
  Modelled from the spec: the bookkeeping of the absent coordinator that the proofs
  below carry along: the checkpoints begun are those from 1 to the last id, and all
  but the last have finished.
\<close>

definition coordinator_inv :: "coordinator \<Rightarrow> bool" where
  "coordinator_inv c =
     ((\<forall>n. (status_of c n \<noteq> None) = (0 < n \<and> n \<le> previous_id c))
      \<and> (\<forall>n. 0 < n \<and> n < previous_id c \<longrightarrow> finished c n))"

text \<open>
  Modelled from the spec: the state of a segment (section 3). Segments are written
  by the engine's file sink, of which the repository has no code.
\<close>

datatype segment_state = OPEN | CLOSED | COMMITTED

text \<open>
  Modelled from the spec: a segment (section 3), absent from the repository.
\<close>

record segment =
  partition_key :: int
  segment_id :: nat
  path :: string
  state :: segment_state
  created_at_checkpoint :: nat
  record_count :: nat

text \<open>
  Modelled from the spec: a commit marker (section 3), absent from the repository.
\<close>

record commit_marker =
  marker_partition_key :: int
  marker_checkpoint_id :: nat
  written_at :: int

text \<open>
  Modelled from the spec: the persisted segment and checkpoint metadata that the
  commit policy reads (sections 4.4 and 5), absent from the repository: segments,
  markers written, the last durable checkpoint, the time each checkpoint became
  durable, and the commit delay.
\<close>

record persisted =
  segments :: "segment list"
  markers :: "commit_marker list"
  last_durable_checkpoint :: nat
  durable_time :: "nat \<rightharpoonup> int"
  commit_delay :: int

text \<open>
  Modelled from the spec: commit eligibility as section 4.4 writes it, for the
  absent commit policy: \<open>state = CLOSED\<close>, \<open>created_at_checkpoint
  \<le> last_durable_checkpoint\<close> and \<open>now -
  durable_time(created_at_checkpoint) \<ge> commit_delay\<close>.
\<close>

definition eligible :: "persisted \<Rightarrow> int \<Rightarrow> segment \<Rightarrow> bool" where
  "eligible st now s =
     (state s = CLOSED
      \<and> created_at_checkpoint s \<le> last_durable_checkpoint st
      \<and> (case durable_time st (created_at_checkpoint s) of
            None \<Rightarrow> False
          | Some t \<Rightarrow> now - t \<ge> commit_delay st))"

text \<open>
  Modelled from the spec: \<open>evaluate(now)\<close> of section 4.4, absent from
  the repository: the pairs of partition key and checkpoint id to commit, each once.
\<close>

definition evaluate :: "persisted \<Rightarrow> int \<Rightarrow> (int \<times> nat) list" where
  "evaluate st now =
     remdups (map (\<lambda>s. (partition_key s, created_at_checkpoint s))
                  (filter (eligible st now) (segments st)))"

text \<open>
  Modelled from the spec: what identifies a commit marker (section 3), for the
  absent commit policy: its partition key and checkpoint id.
\<close>

definition marker_key :: "commit_marker \<Rightarrow> int \<times> nat" where
  "marker_key m = (marker_partition_key m, marker_checkpoint_id m)"

text \<open>
  Modelled from the spec: the marker write of section 3, absent from the repository:
  writing a marker that is there already is a no-op, otherwise the marker is added
  with the time of writing.
\<close>

definition write_marker :: "int \<Rightarrow> commit_marker list \<Rightarrow> int \<times> nat \<Rightarrow> commit_marker list" where
  "write_marker now ms kc =
     (if kc \<in> set (map marker_key ms) then ms
      else ms @ [\<lparr>marker_partition_key = fst kc, marker_checkpoint_id = snd kc,
                  written_at = now\<rparr>])"

text \<open>
  Modelled from the spec: the evaluate-and-commit step of section 4.4, absent from
  the repository: the markers of the eligible pairs are written and the eligible
  segments become \<open>COMMITTED\<close>.
\<close>

definition commit :: "persisted \<Rightarrow> int \<Rightarrow> persisted" where
  "commit st now =
     st\<lparr>markers := foldl (write_marker now) (markers st) (evaluate st now),
        segments := map (\<lambda>s. if eligible st now s then s\<lparr>state := COMMITTED\<rparr> else s)
                        (segments st)\<rparr>"

text \<open>
  Modelled from the spec: the committed set, for the absent commit policy of section
  4.4: the segments in state \<open>COMMITTED\<close>.
\<close>

definition committed :: "persisted \<Rightarrow> segment list" where
  "committed st = filter (\<lambda>s. state s = COMMITTED) (segments st)"

subsection \<open>Example inputs\<close>

text \<open>
  The globals as the module body leaves them on Managed Flink and in local
  mode, and property groups as the two jobs expect them.
\<close>

definition ex_globals :: globals where
  "ex_globals = \<lparr>APPLICATION_PROPERTIES_FILE_PATH = ''/etc/flink/application_properties.json'',
                 is_local = False\<rparr>"

definition ex_local_globals :: globals where
  "ex_local_globals = \<lparr>APPLICATION_PROPERTIES_FILE_PATH = ''application_properties.json'',
                       is_local = True\<rparr>"

definition ex_group :: pyval where
  "ex_group = PDict [(''PropertyGroupId'', PStr ''bucket''),
                     (''PropertyMap'', PDict [(''name'', PStr ''my-bucket'')])]"

definition ex_stream_group :: pyval where
  "ex_stream_group =
     PDict [(''PropertyGroupId'', PStr ''OutputDeliveryStream0''),
            (''PropertyMap'', PDict [(''stream.name'', PStr ''my-stream''),
                                    (''aws.region'', PStr ''us-east-1'')])]"

definition ex_tuned_group :: pyval where
  "ex_tuned_group =
     PDict [(''PropertyGroupId'', PStr ''bucket''),
            (''PropertyMap'', PDict [(''name'', PStr ''my-bucket''),
                                    (''sink.partition-commit.delay'', PStr ''5 min''),
                                    (''execution.checkpointing.interval'', PStr ''10 s''),
                                    (''execution.checkpointing.mode'', PStr ''AT_LEAST_ONCE'')])]"

definition ex_empty_group :: pyval where
  "ex_empty_group = PDict [(''PropertyGroupId'', PStr ''bucket''), (''PropertyMap'', PDict [])]"

text \<open>
  Modelled from the spec: persisted metadata as in the first scenario of section
  8, for the absent commit policy: two segments closed by checkpoint 1, durable
  at time 100, and one open segment.
\<close>

definition ex_persisted :: persisted where
  "ex_persisted =
     \<lparr>segments =
        [\<lparr>partition_key = 10, segment_id = 0, path = ''sensor_id=10/part-0'', state = CLOSED,
          created_at_checkpoint = 1, record_count = 5\<rparr>,
         \<lparr>partition_key = 11, segment_id = 0, path = ''sensor_id=11/part-0'', state = CLOSED,
          created_at_checkpoint = 1, record_count = 5\<rparr>,
         \<lparr>partition_key = 10, segment_id = 1, path = ''sensor_id=10/part-1'', state = OPEN,
          created_at_checkpoint = 0, record_count = 2\<rparr>],
      markers = [],
      last_durable_checkpoint = 1,
      durable_time = [1 \<mapsto> 100],
      commit_delay = 1\<rparr>"

section \<open>Theorems\<close>

text \<open>
  C10. Local mode is on exactly when \<open>IS_LOCAL\<close> is set to a non-empty string,
  in both jobs: any non-empty value turns it on, \<open>false\<close> and \<open>0\<close> included,
  and an unset variable or the empty string leave it off.
\<close>

theorem is_local_iff_nonempty:
  "FirehoseSink_is_local environ = (\<exists>s. environ ''IS_LOCAL'' = Some s \<and> s \<noteq> [])
   \<and> S3Sink_is_local environ = (\<exists>s. environ ''IS_LOCAL'' = Some s \<and> s \<noteq> [])
   \<and> FirehoseSink_is_local (environ(''IS_LOCAL'' \<mapsto> ''false''))
   \<and> S3Sink_is_local (environ(''IS_LOCAL'' \<mapsto> ''false''))
   \<and> FirehoseSink_is_local (environ(''IS_LOCAL'' \<mapsto> ''0''))
   \<and> S3Sink_is_local (environ(''IS_LOCAL'' \<mapsto> ''0''))
   \<and> \<not> FirehoseSink_is_local (environ(''IS_LOCAL'' := None))
   \<and> \<not> S3Sink_is_local (environ(''IS_LOCAL'' := None))
   \<and> \<not> FirehoseSink_is_local (environ(''IS_LOCAL'' \<mapsto> ''''))
   \<and> \<not> S3Sink_is_local (environ(''IS_LOCAL'' \<mapsto> ''''))"
  by (simp add: FirehoseSink_is_local_def S3Sink_is_local_def truthy_get_def
      split: option.splits)

subsection \<open>Reading the runtime properties\<close>

lemma property_map_loop_find:
  "\<forall>p\<in>set xs. is_group p \<Longrightarrow>
   property_map_loop xs gid =
     (case find (has_group_id gid) xs of
        None \<Rightarrow> Inr PNone
      | Some p \<Rightarrow> py_getitem p ''PropertyMap'')"
proof (induction xs)
  case Nil
  show ?case by simp
next
  case (Cons p xs)
  from Cons.prems obtain kvs where p: "p = PDict kvs" and
    k: "map_of kvs ''PropertyGroupId'' \<noteq> None"
    by (cases p) auto
  from Cons have IH: "property_map_loop xs gid =
     (case find (has_group_id gid) xs of
        None \<Rightarrow> Inr PNone
      | Some p \<Rightarrow> py_getitem p ''PropertyMap'')" by simp
  from k obtain g where g: "map_of kvs ''PropertyGroupId'' = Some g" by auto
  have hd: "has_group_id gid (PDict kvs) = (g = PStr gid)"
    using g by (simp add: has_group_id_def)
  show ?case using p g IH hd by simp
qed

lemma is_group_PropertyMap: "is_group p \<Longrightarrow> \<exists>v. py_getitem p ''PropertyMap'' = Inr v"
  by (cases p) auto

lemma property_map_None:
  "\<forall>p\<in>set xs. is_group p \<Longrightarrow> find (has_group_id gid) xs = None \<Longrightarrow>
   property_map (PList xs) gid = Inr PNone"
  by (simp add: property_map_def property_map_loop_find)

lemma FirehoseSink_main_Json:
  "fs (APPLICATION_PROPERTIES_FILE_PATH g) = Json props \<Longrightarrow>
   FirehoseSink_main g fs =
     (case config_value props ''OutputDeliveryStream0'' ''stream.name'' of
        Inl e \<Rightarrow> ([], Inl e)
      | Inr n \<Rightarrow>
     (case config_value props ''OutputDeliveryStream0'' ''aws.region'' of
        Inl e \<Rightarrow> ([], Inl e)
      | Inr r \<Rightarrow>
          ([LogInfo [Lit ''Output Firehose delivery stream: '', Val n, Lit '', region: '', Val r],
            ExecuteSql (CREATE_TABLE FirehoseSink_sensor_readings),
            ExecuteSql (CREATE_TABLE (FirehoseSink_output n r)),
            ExecuteSql (INSERT_INTO FirehoseSink_insert)] @
           (if is_local g then [Wait] else []),
           Inr ())))"
  by (simp add: FirehoseSink_main_def get_application_properties_def config_value_def
      split: sum.splits)

lemma S3Sink_main_Json:
  "fs (APPLICATION_PROPERTIES_FILE_PATH g) = Json props \<Longrightarrow>
   S3Sink_main g fs =
     (case config_value props ''bucket'' ''name'' of
        Inl e \<Rightarrow> ([], Inl e)
      | Inr b \<Rightarrow>
          ([LogInfo [Lit ''Output bucket: '', Val b],
            ExecuteSql (CREATE_TABLE S3Sink_sensor_readings),
            ExecuteSql (CREATE_TABLE (S3Sink_sensors_out b)),
            ExecuteSql (INSERT_INTO S3Sink_insert)] @
           (if is_local g then [Wait] else []),
           Inr ()))"
  by (simp add: S3Sink_main_def get_application_properties_def config_value_def
      split: sum.splits)

lemma FirehoseSink_main_not_Json:
  "\<forall>props. fs (APPLICATION_PROPERTIES_FILE_PATH g) \<noteq> Json props \<Longrightarrow>
   \<exists>out e. FirehoseSink_main g fs = (out, Inl e) \<and> Wait \<notin> set out \<and> statements (out, Inl e) = []"
  by (cases "fs (APPLICATION_PROPERTIES_FILE_PATH g)")
     (simp_all add: FirehoseSink_main_def get_application_properties_def property_map_def statements_def)

lemma S3Sink_main_not_Json:
  "\<forall>props. fs (APPLICATION_PROPERTIES_FILE_PATH g) \<noteq> Json props \<Longrightarrow>
   \<exists>out e. S3Sink_main g fs = (out, Inl e) \<and> Wait \<notin> set out \<and> statements (out, Inl e) = []"
  by (cases "fs (APPLICATION_PROPERTIES_FILE_PATH g)")
     (simp_all add: S3Sink_main_def get_application_properties_def property_map_def statements_def)

text \<open>
  C9. On a properties list (each element an object with a \<open>PropertyGroupId\<close>
  and a \<open>PropertyMap\<close>), \<open>property_map\<close> returns the \<open>PropertyMap\<close> of the
  first element whose \<open>PropertyGroupId\<close> is the requested id, and \<open>None\<close>
  when no element has it. So when the file exists and holds such a list without
  the required group, \<open>main\<close> ends with the \<open>TypeError\<close> of subscripting
  \<open>None\<close>, in both jobs, and not with an error that names the configuration.
\<close>

theorem property_map_first_match:
  assumes wf: "\<forall>p\<in>set xs. is_group p"
  shows "(case find (has_group_id gid) xs of
            None \<Rightarrow> property_map (PList xs) gid = Inr PNone
          | Some p \<Rightarrow> (\<exists>v. py_getitem p ''PropertyMap'' = Inr v
                           \<and> property_map (PList xs) gid = Inr v))
         \<and> (find (has_group_id ''OutputDeliveryStream0'') xs = None
              \<and> fs (APPLICATION_PROPERTIES_FILE_PATH g) = Json (PList xs)
            \<longrightarrow> FirehoseSink_main g fs = ([], Inl (NotSubscriptable NoneType)))
         \<and> (find (has_group_id ''bucket'') xs = None
              \<and> fs (APPLICATION_PROPERTIES_FILE_PATH g) = Json (PList xs)
            \<longrightarrow> S3Sink_main g fs = ([], Inl (NotSubscriptable NoneType)))
         \<and> message (NotSubscriptable NoneType)
             = ''TypeError: '' @ [CHR 0x27] @ ''NoneType'' @ [CHR 0x27] @ '' object is not subscriptable''"
proof -
  have loop: "property_map (PList xs) gid =
     (case find (has_group_id gid) xs of
        None \<Rightarrow> Inr PNone
      | Some p \<Rightarrow> py_getitem p ''PropertyMap'')" for gid
    using property_map_loop_find [OF wf] by (simp add: property_map_def)
  have first: "(case find (has_group_id gid) xs of
            None \<Rightarrow> property_map (PList xs) gid = Inr PNone
          | Some p \<Rightarrow> (\<exists>v. py_getitem p ''PropertyMap'' = Inr v
                           \<and> property_map (PList xs) gid = Inr v))"
  proof (cases "find (has_group_id gid) xs")
    case None
    then show ?thesis using loop [of gid] by simp
  next
    case (Some p)
    then have "p \<in> set xs" by (auto simp: find_Some_iff)
    then have "is_group p" using wf by blast
    then obtain v where "py_getitem p ''PropertyMap'' = Inr v"
      using is_group_PropertyMap by blast
    then show ?thesis using Some loop [of gid] by simp
  qed
  have second: "FirehoseSink_main g fs = ([], Inl (NotSubscriptable NoneType))"
    if "find (has_group_id ''OutputDeliveryStream0'') xs = None"
      and "fs (APPLICATION_PROPERTIES_FILE_PATH g) = Json (PList xs)"
    using that loop [of "''OutputDeliveryStream0''"]
    by (simp add: FirehoseSink_main_Json config_value_def)
  have third: "S3Sink_main g fs = ([], Inl (NotSubscriptable NoneType))"
    if "find (has_group_id ''bucket'') xs = None"
      and "fs (APPLICATION_PROPERTIES_FILE_PATH g) = Json (PList xs)"
    using that loop [of "''bucket''"]
    by (simp add: S3Sink_main_Json config_value_def)
  have fourth: "message (NotSubscriptable NoneType)
             = ''TypeError: '' @ [CHR 0x27] @ ''NoneType'' @ [CHR 0x27] @ '' object is not subscriptable''"
    by simp
  show ?thesis using first second third fourth by blast
qed

theorem property_map_first_match_witness:
  "property_map (PList [ex_group]) ''bucket'' = Inr (PDict [(''name'', PStr ''my-bucket'')])
   \<and> property_map (PList [ex_group]) ''OutputDeliveryStream0'' = Inr PNone
   \<and> FirehoseSink_main ex_globals (\<lambda>p. Json (PList [ex_group]))
       = ([], Inl (NotSubscriptable NoneType))"
  using property_map_first_match [of "[ex_group]" "''bucket''" "\<lambda>p. Json (PList [ex_group])"
      "ex_globals"]
    property_map_first_match [of "[ex_group]" "''OutputDeliveryStream0''" "\<lambda>p. Json (PList [ex_group])"
      "ex_globals"]
  by (simp add: ex_group_def has_group_id_def)

subsection \<open>The wait at the end of \<open>main\<close>\<close>

lemma FirehoseSink_main_wait:
  "snd (FirehoseSink_main g fs) = Inr () \<Longrightarrow>
     (Wait \<in> set (fst (FirehoseSink_main g fs))) = is_local g
     \<and> FirehoseSink_main (g\<lparr>is_local := True\<rparr>) fs
         = (fst (FirehoseSink_main (g\<lparr>is_local := False\<rparr>) fs) @ [Wait], Inr ())
     \<and> last (fst (FirehoseSink_main (g\<lparr>is_local := False\<rparr>) fs))
         = ExecuteSql (INSERT_INTO FirehoseSink_insert)
     \<and> statements (FirehoseSink_main (g\<lparr>is_local := True\<rparr>) fs)
         = statements (FirehoseSink_main (g\<lparr>is_local := False\<rparr>) fs)"
proof (cases "\<exists>props. fs (APPLICATION_PROPERTIES_FILE_PATH g) = Json props")
  case False
  then have "\<exists>out e. FirehoseSink_main g fs = (out, Inl e) \<and> Wait \<notin> set out \<and> statements (out, Inl e) = []"
    using FirehoseSink_main_not_Json [of fs g] by blast
  moreover assume "snd (FirehoseSink_main g fs) = Inr ()"
  ultimately show ?thesis by auto
next
  case True
  then obtain props where j: "fs (APPLICATION_PROPERTIES_FILE_PATH g) = Json props" by blast
  assume ok: "snd (FirehoseSink_main g fs) = Inr ()"
  have jT: "fs (APPLICATION_PROPERTIES_FILE_PATH (g\<lparr>is_local := True\<rparr>)) = Json props"
    and jF: "fs (APPLICATION_PROPERTIES_FILE_PATH (g\<lparr>is_local := False\<rparr>)) = Json props"
    using j by simp_all
  show ?thesis
    using ok
    by (simp add: FirehoseSink_main_Json [of fs g props, OF j]
        FirehoseSink_main_Json [of fs "g\<lparr>is_local := True\<rparr>" props, OF jT]
        FirehoseSink_main_Json [of fs "g\<lparr>is_local := False\<rparr>" props, OF jF]
        statements_def split: sum.splits)
qed

lemma S3Sink_main_wait:
  "snd (S3Sink_main g fs) = Inr () \<Longrightarrow>
     (Wait \<in> set (fst (S3Sink_main g fs))) = is_local g
     \<and> S3Sink_main (g\<lparr>is_local := True\<rparr>) fs
         = (fst (S3Sink_main (g\<lparr>is_local := False\<rparr>) fs) @ [Wait], Inr ())
     \<and> last (fst (S3Sink_main (g\<lparr>is_local := False\<rparr>) fs))
         = ExecuteSql (INSERT_INTO S3Sink_insert)
     \<and> statements (S3Sink_main (g\<lparr>is_local := True\<rparr>) fs)
         = statements (S3Sink_main (g\<lparr>is_local := False\<rparr>) fs)"
proof (cases "\<exists>props. fs (APPLICATION_PROPERTIES_FILE_PATH g) = Json props")
  case False
  then have "\<exists>out e. S3Sink_main g fs = (out, Inl e) \<and> Wait \<notin> set out \<and> statements (out, Inl e) = []"
    using S3Sink_main_not_Json [of fs g] by blast
  moreover assume "snd (S3Sink_main g fs) = Inr ()"
  ultimately show ?thesis by auto
next
  case True
  then obtain props where j: "fs (APPLICATION_PROPERTIES_FILE_PATH g) = Json props" by blast
  assume ok: "snd (S3Sink_main g fs) = Inr ()"
  have jT: "fs (APPLICATION_PROPERTIES_FILE_PATH (g\<lparr>is_local := True\<rparr>)) = Json props"
    and jF: "fs (APPLICATION_PROPERTIES_FILE_PATH (g\<lparr>is_local := False\<rparr>)) = Json props"
    using j by simp_all
  show ?thesis
    using ok
    by (simp add: S3Sink_main_Json [of fs g props, OF j]
        S3Sink_main_Json [of fs "g\<lparr>is_local := True\<rparr>" props, OF jT]
        S3Sink_main_Json [of fs "g\<lparr>is_local := False\<rparr>" props, OF jF]
        statements_def split: sum.splits)
qed

lemma FirehoseSink_wait_only_local: "Wait \<in> set (fst (FirehoseSink_main g fs)) \<Longrightarrow> is_local g"
proof (cases "\<exists>props. fs (APPLICATION_PROPERTIES_FILE_PATH g) = Json props")
  case False
  then have "\<exists>out e. FirehoseSink_main g fs = (out, Inl e) \<and> Wait \<notin> set out \<and> statements (out, Inl e) = []"
    using FirehoseSink_main_not_Json [of fs g] by blast
  moreover assume "Wait \<in> set (fst (FirehoseSink_main g fs))"
  ultimately show ?thesis by auto
next
  case True
  then obtain props where j: "fs (APPLICATION_PROPERTIES_FILE_PATH g) = Json props" by blast
  assume "Wait \<in> set (fst (FirehoseSink_main g fs))"
  then show ?thesis
    by (simp add: FirehoseSink_main_Json [of fs g props, OF j] split: sum.splits if_splits)
qed

lemma S3Sink_wait_only_local: "Wait \<in> set (fst (S3Sink_main g fs)) \<Longrightarrow> is_local g"
proof (cases "\<exists>props. fs (APPLICATION_PROPERTIES_FILE_PATH g) = Json props")
  case False
  then have "\<exists>out e. S3Sink_main g fs = (out, Inl e) \<and> Wait \<notin> set out \<and> statements (out, Inl e) = []"
    using S3Sink_main_not_Json [of fs g] by blast
  moreover assume "Wait \<in> set (fst (S3Sink_main g fs))"
  ultimately show ?thesis by auto
next
  case True
  then obtain props where j: "fs (APPLICATION_PROPERTIES_FILE_PATH g) = Json props" by blast
  assume "Wait \<in> set (fst (S3Sink_main g fs))"
  then show ?thesis
    by (simp add: S3Sink_main_Json [of fs g props, OF j] split: sum.splits if_splits)
qed

text \<open>
  C8. In every run in which \<open>main\<close> gets through the runtime properties, the
  driver waits for the pipeline exactly when the run-mode flag \<open>is_local\<close> is
  set; otherwise \<open>main\<close> returns right after the \<open>INSERT\<close> that defines the
  flow. The local run is the other run followed by the wait, so the branch
  leaves the statements given to the engine (the sink declaration with its
  commit options among them) as they are. No run waits without the flag.
\<close>

theorem main_waits_iff_local:
  "(snd (FirehoseSink_main g fs) = Inr () \<longrightarrow>
     (Wait \<in> set (fst (FirehoseSink_main g fs))) = is_local g
     \<and> FirehoseSink_main (g\<lparr>is_local := True\<rparr>) fs
         = (fst (FirehoseSink_main (g\<lparr>is_local := False\<rparr>) fs) @ [Wait], Inr ())
     \<and> last (fst (FirehoseSink_main (g\<lparr>is_local := False\<rparr>) fs))
         = ExecuteSql (INSERT_INTO FirehoseSink_insert)
     \<and> statements (FirehoseSink_main (g\<lparr>is_local := True\<rparr>) fs)
         = statements (FirehoseSink_main (g\<lparr>is_local := False\<rparr>) fs))
   \<and> (snd (S3Sink_main g fs) = Inr () \<longrightarrow>
     (Wait \<in> set (fst (S3Sink_main g fs))) = is_local g
     \<and> S3Sink_main (g\<lparr>is_local := True\<rparr>) fs
         = (fst (S3Sink_main (g\<lparr>is_local := False\<rparr>) fs) @ [Wait], Inr ())
     \<and> last (fst (S3Sink_main (g\<lparr>is_local := False\<rparr>) fs))
         = ExecuteSql (INSERT_INTO S3Sink_insert)
     \<and> statements (S3Sink_main (g\<lparr>is_local := True\<rparr>) fs)
         = statements (S3Sink_main (g\<lparr>is_local := False\<rparr>) fs))
   \<and> (Wait \<in> set (fst (FirehoseSink_main g fs)) \<longrightarrow> is_local g)
   \<and> (Wait \<in> set (fst (S3Sink_main g fs)) \<longrightarrow> is_local g)"
  using FirehoseSink_main_wait [of g fs] S3Sink_main_wait [of g fs]
    FirehoseSink_wait_only_local [of g fs] S3Sink_wait_only_local [of g fs]
  by blast

theorem main_waits_iff_local_witness:
  "snd (FirehoseSink_main ex_local_globals (\<lambda>p. Json (PList [ex_stream_group, ex_group]))) = Inr ()
   \<and> Wait \<in> set (fst (FirehoseSink_main ex_local_globals (\<lambda>p. Json (PList [ex_stream_group, ex_group]))))
   \<and> snd (S3Sink_main ex_globals (\<lambda>p. Json (PList [ex_stream_group, ex_group]))) = Inr ()
   \<and> Wait \<notin> set (fst (S3Sink_main ex_globals (\<lambda>p. Json (PList [ex_stream_group, ex_group]))))
   \<and> last (fst (S3Sink_main ex_globals (\<lambda>p. Json (PList [ex_stream_group, ex_group]))))
       = ExecuteSql (INSERT_INTO S3Sink_insert)"
  using main_waits_iff_local [of ex_local_globals "\<lambda>p. Json (PList [ex_stream_group, ex_group])"]
    main_waits_iff_local [of ex_globals "\<lambda>p. Json (PList [ex_stream_group, ex_group])"]
  by (simp add: FirehoseSink_main_def S3Sink_main_def get_application_properties_def
      property_map_def ex_globals_def ex_local_globals_def ex_stream_group_def ex_group_def)

subsection \<open>Missing configuration\<close>

lemma says_printed: "Print (a @ name @ b) \<in> set (fst r) \<Longrightarrow> says r name"
proof -
  assume p: "Print (a @ name @ b) \<in> set (fst r)"
  have "a @ name @ b \<in> set (printed (Print (a @ name @ b)))" by simp
  with p have "a @ name @ b \<in> set (concat (map printed (fst r)))"
    by (auto intro!: bexI [of _ "Print (a @ name @ b)"])
  moreover have "sublist name (a @ name @ b)" by (rule sublist_appendI)
  ultimately show ?thesis unfolding says_def list_ex_iff by blast
qed

lemma missing_file_Firehose:
  \<open>fs (APPLICATION_PROPERTIES_FILE_PATH g) = NoFile \<Longrightarrow>
   FirehoseSink_main g fs =
     ([Print (''A file at "'' @ APPLICATION_PROPERTIES_FILE_PATH g @ ''" was not found'')],
      Inl (NotIterable NoneType))\<close>
  by (simp add: FirehoseSink_main_def get_application_properties_def property_map_def)

lemma missing_file_S3:
  \<open>fs (APPLICATION_PROPERTIES_FILE_PATH g) = NoFile \<Longrightarrow>
   S3Sink_main g fs =
     ([Print (''A file at "'' @ APPLICATION_PROPERTIES_FILE_PATH g @ ''" was not found'')],
      Inl (NotIterable NoneType))\<close>
  by (simp add: S3Sink_main_def get_application_properties_def property_map_def)

lemma says_missing_file:
  \<open>says ([Print (''A file at "'' @ p @ ''" was not found'')], Inl e) p\<close>
  by (rule says_printed [where a = \<open>''A file at "''\<close> and b = \<open>''" was not found''\<close>]) simp

text \<open>
  A properties file that exists and holds only the \<open>bucket\<close> group, given to
  the FirehoseSink job: the run ends with status 1, and neither a printed line
  nor the exception's message contains the name of the missing group or of one
  of its keys.
\<close>

theorem missing_group_names_nothing:
  "FirehoseSink_main ex_globals (\<lambda>p. Json (PList [ex_group])) = ([], Inl (NotSubscriptable NoneType))
   \<and> exit_status (FirehoseSink_main ex_globals (\<lambda>p. Json (PList [ex_group]))) = 1
   \<and> \<not> says (FirehoseSink_main ex_globals (\<lambda>p. Json (PList [ex_group]))) ''OutputDeliveryStream0''
   \<and> \<not> says (FirehoseSink_main ex_globals (\<lambda>p. Json (PList [ex_group]))) ''stream.name''
   \<and> \<not> says (FirehoseSink_main ex_globals (\<lambda>p. Json (PList [ex_group]))) ''aws.region''"
proof -
  have run: "FirehoseSink_main ex_globals (\<lambda>p. Json (PList [ex_group]))
      = ([], Inl (NotSubscriptable NoneType))"
    by (simp add: FirehoseSink_main_def get_application_properties_def property_map_def
        ex_group_def)
  show ?thesis
    unfolding run
    by (simp add: exit_status_def says_def sublist_Cons_right)
qed

text \<open>
  C1 (as amended). When the properties file does not exist, or holds a list of
  property groups without the required group, or the group's property map lacks
  a required key, \<open>main\<close> ends with an uncaught exception, hence a non-zero
  status, before any statement reaches the engine. With the file missing, the
  line \<open>A file at "<path>" was not found\<close> names the path and the exception
  is the \<open>TypeError\<close> of iterating \<open>None\<close>; with a key missing, the
  \<open>KeyError\<close> names the key; with the group missing, the exception is the
  \<open>TypeError\<close> of subscripting \<open>None\<close>.
\<close>

theorem configuration_missing_fails:
  \<open>(fs (APPLICATION_PROPERTIES_FILE_PATH g) = NoFile \<longrightarrow>
      FirehoseSink_main g fs =
        ([Print (''A file at "'' @ APPLICATION_PROPERTIES_FILE_PATH g @ ''" was not found'')],
         Inl (NotIterable NoneType))
      \<and> S3Sink_main g fs = FirehoseSink_main g fs
      \<and> says (FirehoseSink_main g fs) (APPLICATION_PROPERTIES_FILE_PATH g)
      \<and> exit_status (FirehoseSink_main g fs) = 1)
   \<and> (fs (APPLICATION_PROPERTIES_FILE_PATH g) = Json (PList xs) \<and> (\<forall>p\<in>set xs. is_group p)
        \<and> find (has_group_id ''OutputDeliveryStream0'') xs = None \<longrightarrow>
      FirehoseSink_main g fs = ([], Inl (NotSubscriptable NoneType))
      \<and> exit_status (FirehoseSink_main g fs) = 1)
   \<and> (fs (APPLICATION_PROPERTIES_FILE_PATH g) = Json (PList xs) \<and> (\<forall>p\<in>set xs. is_group p)
        \<and> find (has_group_id ''bucket'') xs = None \<longrightarrow>
      S3Sink_main g fs = ([], Inl (NotSubscriptable NoneType))
      \<and> exit_status (S3Sink_main g fs) = 1)
   \<and> (fs (APPLICATION_PROPERTIES_FILE_PATH g) = Json props
        \<and> property_map props ''OutputDeliveryStream0'' = Inr (PDict kvs)
        \<and> map_of kvs ''stream.name'' = None \<longrightarrow>
      FirehoseSink_main g fs = ([], Inl (KeyError ''stream.name''))
      \<and> says (FirehoseSink_main g fs) ''stream.name''
      \<and> exit_status (FirehoseSink_main g fs) = 1)
   \<and> (fs (APPLICATION_PROPERTIES_FILE_PATH g) = Json props
        \<and> property_map props ''OutputDeliveryStream0'' = Inr (PDict kvs)
        \<and> map_of kvs ''stream.name'' \<noteq> None \<and> map_of kvs ''aws.region'' = None \<longrightarrow>
      FirehoseSink_main g fs = ([], Inl (KeyError ''aws.region''))
      \<and> says (FirehoseSink_main g fs) ''aws.region''
      \<and> exit_status (FirehoseSink_main g fs) = 1)
   \<and> (fs (APPLICATION_PROPERTIES_FILE_PATH g) = Json props
        \<and> property_map props ''bucket'' = Inr (PDict kvs)
        \<and> map_of kvs ''name'' = None \<longrightarrow>
      S3Sink_main g fs = ([], Inl (KeyError ''name''))
      \<and> says (S3Sink_main g fs) ''name''
      \<and> exit_status (S3Sink_main g fs) = 1)\<close>
proof -
  have nofile: \<open>FirehoseSink_main g fs =
        ([Print (''A file at "'' @ APPLICATION_PROPERTIES_FILE_PATH g @ ''" was not found'')],
         Inl (NotIterable NoneType))
      \<and> S3Sink_main g fs = FirehoseSink_main g fs
      \<and> says (FirehoseSink_main g fs) (APPLICATION_PROPERTIES_FILE_PATH g)
      \<and> exit_status (FirehoseSink_main g fs) = 1\<close>
    if "fs (APPLICATION_PROPERTIES_FILE_PATH g) = NoFile"
  proof -
    have f: \<open>FirehoseSink_main g fs =
        ([Print (''A file at "'' @ APPLICATION_PROPERTIES_FILE_PATH g @ ''" was not found'')],
         Inl (NotIterable NoneType))\<close>
      using that by (rule missing_file_Firehose [of fs g])
    have s: "S3Sink_main g fs = FirehoseSink_main g fs"
      unfolding f using that by (rule missing_file_S3 [of fs g])
    have n: "says (FirehoseSink_main g fs) (APPLICATION_PROPERTIES_FILE_PATH g)"
      unfolding f by (rule says_missing_file)
    have x: "exit_status (FirehoseSink_main g fs) = 1"
      unfolding f by (simp add: exit_status_def)
    show ?thesis using f s n x by blast
  qed
  have nogroup_f: "FirehoseSink_main g fs = ([], Inl (NotSubscriptable NoneType))
      \<and> exit_status (FirehoseSink_main g fs) = 1"
    if "fs (APPLICATION_PROPERTIES_FILE_PATH g) = Json (PList xs)" "\<forall>p\<in>set xs. is_group p"
       "find (has_group_id ''OutputDeliveryStream0'') xs = None"
    using property_map_None [OF that(2) that(3)]
    by (simp add: FirehoseSink_main_Json [of fs g "PList xs", OF that(1)] config_value_def
        exit_status_def)
  have nogroup_s: "S3Sink_main g fs = ([], Inl (NotSubscriptable NoneType))
      \<and> exit_status (S3Sink_main g fs) = 1"
    if "fs (APPLICATION_PROPERTIES_FILE_PATH g) = Json (PList xs)" "\<forall>p\<in>set xs. is_group p"
       "find (has_group_id ''bucket'') xs = None"
    using property_map_None [OF that(2) that(3)]
    by (simp add: S3Sink_main_Json [of fs g "PList xs", OF that(1)] config_value_def
        exit_status_def)
  have nokey1: "FirehoseSink_main g fs = ([], Inl (KeyError ''stream.name''))
      \<and> says (FirehoseSink_main g fs) ''stream.name''
      \<and> exit_status (FirehoseSink_main g fs) = 1"
    if "fs (APPLICATION_PROPERTIES_FILE_PATH g) = Json props"
       "property_map props ''OutputDeliveryStream0'' = Inr (PDict kvs)"
       "map_of kvs ''stream.name'' = None"
    using that(2) that(3)
    by (simp add: FirehoseSink_main_Json [of fs g props, OF that(1)] config_value_def
        exit_status_def says_def sublist_Cons_right)
  have nokey2: "FirehoseSink_main g fs = ([], Inl (KeyError ''aws.region''))
      \<and> says (FirehoseSink_main g fs) ''aws.region''
      \<and> exit_status (FirehoseSink_main g fs) = 1"
    if "fs (APPLICATION_PROPERTIES_FILE_PATH g) = Json props"
       "property_map props ''OutputDeliveryStream0'' = Inr (PDict kvs)"
       "map_of kvs ''stream.name'' \<noteq> None" "map_of kvs ''aws.region'' = None"
    using that(2) that(3) that(4)
    by (auto simp: FirehoseSink_main_Json [of fs g props, OF that(1)] config_value_def
        exit_status_def says_def sublist_Cons_right)
  have nokey3: "S3Sink_main g fs = ([], Inl (KeyError ''name''))
      \<and> says (S3Sink_main g fs) ''name''
      \<and> exit_status (S3Sink_main g fs) = 1"
    if "fs (APPLICATION_PROPERTIES_FILE_PATH g) = Json props"
       "property_map props ''bucket'' = Inr (PDict kvs)"
       "map_of kvs ''name'' = None"
    using that(2) that(3)
    by (simp add: S3Sink_main_Json [of fs g props, OF that(1)] config_value_def
        exit_status_def says_def sublist_Cons_right)
  show ?thesis
    using nofile nogroup_f nogroup_s nokey1 nokey2 nokey3 by blast
qed

theorem configuration_missing_fails_witness:
  \<open>FirehoseSink_main ex_globals (\<lambda>p. NoFile) =
     ([Print (''A file at "'' @ APPLICATION_PROPERTIES_FILE_PATH ex_globals @ ''" was not found'')],
      Inl (NotIterable NoneType))
   \<and> says (FirehoseSink_main ex_globals (\<lambda>p. NoFile)) (APPLICATION_PROPERTIES_FILE_PATH ex_globals)
   \<and> exit_status (FirehoseSink_main ex_globals (\<lambda>p. NoFile)) = 1
   \<and> FirehoseSink_main ex_globals (\<lambda>p. Json (PList [ex_group]))
       = ([], Inl (NotSubscriptable NoneType))
   \<and> S3Sink_main ex_globals (\<lambda>p. Json (PList [ex_empty_group])) = ([], Inl (KeyError ''name''))
   \<and> says (S3Sink_main ex_globals (\<lambda>p. Json (PList [ex_empty_group]))) ''name''\<close>
proof -
  let ?fs1 = "\<lambda>p::string. NoFile"
  let ?fs2 = "\<lambda>p::string. Json (PList [ex_group])"
  let ?fs3 = "\<lambda>p::string. Json (PList [ex_empty_group])"
  have h2: "(\<forall>p\<in>set [ex_group]. is_group p)
      \<and> find (has_group_id ''OutputDeliveryStream0'') [ex_group] = None"
    by (simp add: ex_group_def has_group_id_def)
  have h3: "property_map (PList [ex_empty_group]) ''bucket'' = Inr (PDict [])
      \<and> map_of ([] :: (string \<times> pyval) list) ''name'' = None"
    by (simp add: ex_empty_group_def property_map_def)
  have c1: \<open>FirehoseSink_main ex_globals ?fs1 =
     ([Print (''A file at "'' @ APPLICATION_PROPERTIES_FILE_PATH ex_globals @ ''" was not found'')],
      Inl (NotIterable NoneType))
   \<and> says (FirehoseSink_main ex_globals ?fs1) (APPLICATION_PROPERTIES_FILE_PATH ex_globals)
   \<and> exit_status (FirehoseSink_main ex_globals ?fs1) = 1\<close>
    using configuration_missing_fails [where g = ex_globals and fs = ?fs1] by blast
  have c2: "FirehoseSink_main ex_globals ?fs2 = ([], Inl (NotSubscriptable NoneType))"
    using configuration_missing_fails [where g = ex_globals and fs = ?fs2 and xs = "[ex_group]"] h2
    by blast
  have c3: "S3Sink_main ex_globals ?fs3 = ([], Inl (KeyError ''name''))
      \<and> says (S3Sink_main ex_globals ?fs3) ''name''"
    using configuration_missing_fails [where g = ex_globals and fs = ?fs3
        and props = "PList [ex_empty_group]" and kvs = "[]"] h3
    by blast
  show ?thesis using c1 c2 c3 by blast
qed

subsection \<open>The declared tables\<close>

lemma FirehoseSink_main_ok:
  assumes "fs (APPLICATION_PROPERTIES_FILE_PATH g) = Json props"
    and "config_value props ''OutputDeliveryStream0'' ''stream.name'' = Inr n"
    and "config_value props ''OutputDeliveryStream0'' ''aws.region'' = Inr r"
  shows "FirehoseSink_main g fs =
          ([LogInfo [Lit ''Output Firehose delivery stream: '', Val n, Lit '', region: '', Val r],
            ExecuteSql (CREATE_TABLE FirehoseSink_sensor_readings),
            ExecuteSql (CREATE_TABLE (FirehoseSink_output n r)),
            ExecuteSql (INSERT_INTO FirehoseSink_insert)] @
           (if is_local g then [Wait] else []),
           Inr ())"
  using assms(2,3) by (simp add: FirehoseSink_main_Json [of fs g props, OF assms(1)])

lemma S3Sink_main_ok:
  assumes "fs (APPLICATION_PROPERTIES_FILE_PATH g) = Json props"
    and "config_value props ''bucket'' ''name'' = Inr b"
  shows "S3Sink_main g fs =
          ([LogInfo [Lit ''Output bucket: '', Val b],
            ExecuteSql (CREATE_TABLE S3Sink_sensor_readings),
            ExecuteSql (CREATE_TABLE (S3Sink_sensors_out b)),
            ExecuteSql (INSERT_INTO S3Sink_insert)] @
           (if is_local g then [Wait] else []),
           Inr ())"
  using assms(2) by (simp add: S3Sink_main_Json [of fs g props, OF assms(1)])

lemma declared_output:
  "declared
     ([LogInfo l,
       ExecuteSql (CREATE_TABLE FirehoseSink_sensor_readings),
       ExecuteSql (CREATE_TABLE (FirehoseSink_output n r)),
       ExecuteSql (INSERT_INTO FirehoseSink_insert)] @ (if b then [Wait] else []), x) ''output''
   = Some (FirehoseSink_output n r)"
  by (simp add: declared_def statements_def FirehoseSink_sensor_readings_def
      FirehoseSink_output_def)


lemma declared_sensors_out:
  "declared
     ([LogInfo l,
       ExecuteSql (CREATE_TABLE S3Sink_sensor_readings),
       ExecuteSql (CREATE_TABLE (S3Sink_sensors_out b)),
       ExecuteSql (INSERT_INTO S3Sink_insert)] @ (if w then [Wait] else []), x) ''sensors_out''
   = Some (S3Sink_sensors_out b)"
  by (simp add: declared_def statements_def S3Sink_sensor_readings_def S3Sink_sensors_out_def)



lemma ex_stream_values:
  "config_value (PList [ex_stream_group]) ''OutputDeliveryStream0'' ''stream.name''
     = Inr (PStr ''my-stream'')
   \<and> config_value (PList [ex_stream_group]) ''OutputDeliveryStream0'' ''aws.region''
     = Inr (PStr ''us-east-1'')"
  by (simp add: config_value_def property_map_def ex_stream_group_def)


lemma ex_tuned_value:
  "config_value (PList [ex_tuned_group]) ''bucket'' ''name'' = Inr (PStr ''my-bucket'')"
  by (simp add: config_value_def property_map_def ex_tuned_group_def)




text \<open>
  Properties that ask for a commit delay of 5 minutes, a checkpoint interval of
  10 seconds and at-least-once checkpoints, given to the S3Sink job: the table is
  declared with the commit delay \<open>1 min\<close>, a literal with no hole for a
  property, and the checkpointing settings are those of the module body:
  nothing on Managed Flink, \<open>1 min\<close> and \<open>EXACTLY_ONCE\<close> in local mode.
\<close>

theorem commit_delay_not_from_properties:
  "declared (S3Sink_main ex_globals (\<lambda>p. Json (PList [ex_tuned_group]))) ''sensors_out''
     = Some (S3Sink_sensors_out (PStr ''my-bucket''))
   \<and> option_of (S3Sink_sensors_out (PStr ''my-bucket'')) ''sink.partition-commit.delay''
     = Some [Lit ''1 min'']
   \<and> \<not> from_properties [Lit ''1 min'']
   \<and> settings (fst (S3Sink_module Map.empty ''/app'' ''/pyflink''))
        ''execution.checkpointing.interval'' = None
   \<and> settings (fst (S3Sink_module [''IS_LOCAL'' \<mapsto> ''true''] ''/app'' ''/pyflink''))
        ''execution.checkpointing.interval'' = Some ''1 min''
   \<and> settings (fst (S3Sink_module [''IS_LOCAL'' \<mapsto> ''true''] ''/app'' ''/pyflink''))
        ''execution.checkpointing.mode'' = Some ''EXACTLY_ONCE''"
proof -
  have f: "(\<lambda>p::string. Json (PList [ex_tuned_group])) (APPLICATION_PROPERTIES_FILE_PATH ex_globals)
      = Json (PList [ex_tuned_group])" by simp
  have d: "declared (S3Sink_main ex_globals (\<lambda>p. Json (PList [ex_tuned_group]))) ''sensors_out''
     = Some (S3Sink_sensors_out (PStr ''my-bucket''))"
    unfolding S3Sink_main_ok [of "\<lambda>p. Json (PList [ex_tuned_group])" ex_globals
        "PList [ex_tuned_group]" "PStr ''my-bucket''", OF f ex_tuned_value]
    by (rule declared_sensors_out)
  have o: "option_of (S3Sink_sensors_out (PStr ''my-bucket'')) ''sink.partition-commit.delay''
     = Some [Lit ''1 min'']"
    by (simp add: S3Sink_sensors_out_def option_of_def)
  have n: "\<not> from_properties [Lit ''1 min'']"
    by (simp add: from_properties_def)
  have m: "settings (fst (S3Sink_module Map.empty ''/app'' ''/pyflink''))
        ''execution.checkpointing.interval'' = None
   \<and> settings (fst (S3Sink_module [''IS_LOCAL'' \<mapsto> ''true''] ''/app'' ''/pyflink''))
        ''execution.checkpointing.interval'' = Some ''1 min''
   \<and> settings (fst (S3Sink_module [''IS_LOCAL'' \<mapsto> ''true''] ''/app'' ''/pyflink''))
        ''execution.checkpointing.mode'' = Some ''EXACTLY_ONCE''"
    by (simp add: S3Sink_module_def S3Sink_is_local_def truthy_get_def settings_def)
  show ?thesis using d o n m by blast
qed

lemma S3Sink_module_settings:
  "settings (fst (S3Sink_module environ CURRENT_DIR pyflink_dir)) ''execution.checkpointing.mode''
     = (if S3Sink_is_local environ then Some ''EXACTLY_ONCE'' else None)
   \<and> settings (fst (S3Sink_module environ CURRENT_DIR pyflink_dir))
        ''execution.checkpointing.interval''
     = (if S3Sink_is_local environ then Some ''1 min'' else None)"
  by (simp add: S3Sink_module_def settings_def)

lemma FirehoseSink_module_settings:
  "settings (fst (FirehoseSink_module environ CURRENT_DIR pyflink_dir))
        ''execution.checkpointing.mode'' = None
   \<and> settings (fst (FirehoseSink_module environ CURRENT_DIR pyflink_dir))
        ''execution.checkpointing.interval'' = None"
  by (simp add: FirehoseSink_module_def settings_def)

text \<open>
  C2 (as amended). The delivery-stream name and region of FirehoseSink and the
  bucket name of S3Sink are read from the property groups
  \<open>OutputDeliveryStream0\<close> (keys \<open>stream.name\<close>, \<open>aws.region\<close>) and
  \<open>bucket\<close> (key \<open>name\<close>) and put into the sink declaration. The path below
  the bucket and the commit delay \<open>1 min\<close> are literals of the S3Sink
  declaration. The checkpointing mode \<open>EXACTLY_ONCE\<close> and interval \<open>1 min\<close>
  are literals that the S3Sink module body sets in local mode only; otherwise
  neither job sets them.
\<close>

theorem tunables_from_properties:
  "(fs (APPLICATION_PROPERTIES_FILE_PATH g) = Json props
      \<and> config_value props ''OutputDeliveryStream0'' ''stream.name'' = Inr n
      \<and> config_value props ''OutputDeliveryStream0'' ''aws.region'' = Inr r \<longrightarrow>
    declared (FirehoseSink_main g fs) ''output'' = Some (FirehoseSink_output n r)
    \<and> option_of (FirehoseSink_output n r) ''delivery-stream'' = Some [Val n]
    \<and> option_of (FirehoseSink_output n r) ''aws.region'' = Some [Val r]
    \<and> from_properties [Val n] \<and> from_properties [Val r])
   \<and> (fs (APPLICATION_PROPERTIES_FILE_PATH g) = Json props
      \<and> config_value props ''bucket'' ''name'' = Inr b \<longrightarrow>
    declared (S3Sink_main g fs) ''sensors_out'' = Some (S3Sink_sensors_out b)
    \<and> option_of (S3Sink_sensors_out b) ''path''
        = Some [Lit ''s3a://'', Val b, Lit ''/pyflinkl-filesink-example-output/'']
    \<and> from_properties [Lit ''s3a://'', Val b, Lit ''/pyflinkl-filesink-example-output/'']
    \<and> option_of (S3Sink_sensors_out b) ''sink.partition-commit.delay'' = Some [Lit ''1 min''])
   \<and> \<not> from_properties [Lit ''1 min'']
   \<and> settings (fst (S3Sink_module environ CURRENT_DIR pyflink_dir))
        ''execution.checkpointing.mode''
       = (if S3Sink_is_local environ then Some ''EXACTLY_ONCE'' else None)
   \<and> settings (fst (S3Sink_module environ CURRENT_DIR pyflink_dir))
        ''execution.checkpointing.interval''
       = (if S3Sink_is_local environ then Some ''1 min'' else None)
   \<and> settings (fst (FirehoseSink_module environ CURRENT_DIR pyflink_dir))
        ''execution.checkpointing.mode'' = None
   \<and> settings (fst (FirehoseSink_module environ CURRENT_DIR pyflink_dir))
        ''execution.checkpointing.interval'' = None"
proof -
  have a: "declared (FirehoseSink_main g fs) ''output'' = Some (FirehoseSink_output n r)
    \<and> option_of (FirehoseSink_output n r) ''delivery-stream'' = Some [Val n]
    \<and> option_of (FirehoseSink_output n r) ''aws.region'' = Some [Val r]
    \<and> from_properties [Val n] \<and> from_properties [Val r]"
    if "fs (APPLICATION_PROPERTIES_FILE_PATH g) = Json props"
      "config_value props ''OutputDeliveryStream0'' ''stream.name'' = Inr n"
      "config_value props ''OutputDeliveryStream0'' ''aws.region'' = Inr r"
  proof -
    have "declared (FirehoseSink_main g fs) ''output'' = Some (FirehoseSink_output n r)"
      unfolding FirehoseSink_main_ok [of fs g props n r, OF that]
      by (rule declared_output)
    then show ?thesis
      by (simp add: FirehoseSink_output_def option_of_def from_properties_def)
  qed
  have b: "declared (S3Sink_main g fs) ''sensors_out'' = Some (S3Sink_sensors_out b)
    \<and> option_of (S3Sink_sensors_out b) ''path''
        = Some [Lit ''s3a://'', Val b, Lit ''/pyflinkl-filesink-example-output/'']
    \<and> from_properties [Lit ''s3a://'', Val b, Lit ''/pyflinkl-filesink-example-output/'']
    \<and> option_of (S3Sink_sensors_out b) ''sink.partition-commit.delay'' = Some [Lit ''1 min'']"
    if "fs (APPLICATION_PROPERTIES_FILE_PATH g) = Json props"
      "config_value props ''bucket'' ''name'' = Inr b"
  proof -
    have "declared (S3Sink_main g fs) ''sensors_out'' = Some (S3Sink_sensors_out b)"
      unfolding S3Sink_main_ok [of fs g props b, OF that]
      by (rule declared_sensors_out)
    then show ?thesis
      by (simp add: S3Sink_sensors_out_def option_of_def from_properties_def)
  qed
  have c: "\<not> from_properties [Lit ''1 min'']"
    by (simp add: from_properties_def)
  show ?thesis
    using a b c S3Sink_module_settings [of environ CURRENT_DIR pyflink_dir]
      FirehoseSink_module_settings [of environ CURRENT_DIR pyflink_dir]
    by blast
qed

theorem tunables_from_properties_witness:
  "declared (FirehoseSink_main ex_globals (\<lambda>p. Json (PList [ex_stream_group]))) ''output''
     = Some (FirehoseSink_output (PStr ''my-stream'') (PStr ''us-east-1''))
   \<and> option_of (FirehoseSink_output (PStr ''my-stream'') (PStr ''us-east-1'')) ''delivery-stream''
     = Some [Val (PStr ''my-stream'')]
   \<and> declared (S3Sink_main ex_globals (\<lambda>p. Json (PList [ex_tuned_group]))) ''sensors_out''
     = Some (S3Sink_sensors_out (PStr ''my-bucket''))
   \<and> option_of (S3Sink_sensors_out (PStr ''my-bucket'')) ''sink.partition-commit.delay''
     = Some [Lit ''1 min'']"
proof -
  have f1: "(\<lambda>p::string. Json (PList [ex_stream_group])) (APPLICATION_PROPERTIES_FILE_PATH ex_globals)
      = Json (PList [ex_stream_group])" by simp
  have f2: "(\<lambda>p::string. Json (PList [ex_tuned_group])) (APPLICATION_PROPERTIES_FILE_PATH ex_globals)
      = Json (PList [ex_tuned_group])" by simp
  show ?thesis
    using tunables_from_properties [where fs = "\<lambda>p. Json (PList [ex_stream_group])"
        and g = ex_globals and props = "PList [ex_stream_group]"
        and n = "PStr ''my-stream''" and r = "PStr ''us-east-1''"]
      tunables_from_properties [where fs = "\<lambda>p. Json (PList [ex_tuned_group])"
        and g = ex_globals and props = "PList [ex_tuned_group]" and b = "PStr ''my-bucket''"]
      f1 f2 ex_stream_values ex_tuned_value
    by blast
qed

text \<open>
  The S3Sink insert stores the source column \<open>measurement_time\<close>, declared
  \<open>TIMESTAMP(3)\<close>, in the sink column \<open>time\<close>, declared
  \<open>TIMESTAMP_LTZ(3)\<close>: the selected columns are not all stored in columns of
  their own type, so the engine converts that value to the sink's type.
\<close>

theorem S3Sink_time_changes_type:
  "select_list S3Sink_insert
     = [(''sensor_id'', None), (''temperature'', None), (''measurement_time'', Some ''time'')]
   \<and> map_option col_type (source_column S3Sink_sensor_readings ''measurement_time'')
     = Some (TIMESTAMP_T 3)
   \<and> map col_type (columns (S3Sink_sensors_out (PStr ''my-bucket'')))
     = [INT_T, NUMERIC_T 6 2, TIMESTAMP_LTZ_T 3]
   \<and> \<not> same_types S3Sink_sensor_readings S3Sink_insert (S3Sink_sensors_out (PStr ''my-bucket''))"
  by (simp add: same_types_def source_column_def S3Sink_sensor_readings_def
      S3Sink_sensors_out_def S3Sink_insert_def)

text \<open>
  C5 (as amended). In both jobs the insert selects the three source columns by
  name, with no expression: the values of \<open>sensor_id\<close>, \<open>temperature\<close> and
  \<open>measurement_time\<close> go, in this order, to the columns of the sink, which are
  named \<open>temperature_f\<close> (FirehoseSink) and \<open>time\<close> (S3Sink) for the second
  and third. In FirehoseSink every sink column has the type of its source
  column. In S3Sink \<open>sensor_id\<close> and \<open>temperature\<close> do, and
  \<open>measurement_time\<close>, a \<open>TIMESTAMP(3)\<close>, is stored in a
  \<open>TIMESTAMP_LTZ(3)\<close> column.
\<close>

theorem insert_copies_columns:
  "insert_row FirehoseSink_insert (FirehoseSink_output n r) row ''sensor_id'' = row ''sensor_id''
   \<and> insert_row FirehoseSink_insert (FirehoseSink_output n r) row ''temperature_f''
       = row ''temperature''
   \<and> insert_row FirehoseSink_insert (FirehoseSink_output n r) row ''measurement_time''
       = row ''measurement_time''
   \<and> same_types FirehoseSink_sensor_readings FirehoseSink_insert (FirehoseSink_output n r)
   \<and> insert_row S3Sink_insert (S3Sink_sensors_out b) row ''sensor_id'' = row ''sensor_id''
   \<and> insert_row S3Sink_insert (S3Sink_sensors_out b) row ''temperature'' = row ''temperature''
   \<and> insert_row S3Sink_insert (S3Sink_sensors_out b) row ''time'' = row ''measurement_time''
   \<and> output_names S3Sink_insert = map col_name (columns (S3Sink_sensors_out b))
   \<and> map (\<lambda>(c, a). map_option col_type (source_column S3Sink_sensor_readings c))
         (select_list S3Sink_insert)
       = [Some INT_T, Some (NUMERIC_T 6 2), Some (TIMESTAMP_T 3)]
   \<and> map col_type (columns (S3Sink_sensors_out b)) = [INT_T, NUMERIC_T 6 2, TIMESTAMP_LTZ_T 3]"
  by (simp add: insert_row_def same_types_def source_column_def output_names_def
      FirehoseSink_insert_def FirehoseSink_output_def FirehoseSink_sensor_readings_def
      S3Sink_insert_def S3Sink_sensors_out_def S3Sink_sensor_readings_def)

subsection \<open>The checkpoint coordinator of the specification\<close>

lemma coordinator_inv_init: "coordinator_inv coordinator_init"
  by (auto simp: coordinator_inv_def coordinator_init_def)

lemma coordinator_inv_step:
  assumes "coordinator_inv c"
  shows "coordinator_inv (coordinator_step c e)"
proof (cases e)
  case Trigger
  show ?thesis
  proof (cases "is_pending c")
    case True
    then show ?thesis using assms Trigger by simp
  next
    case False
    have last: "finished c (previous_id c)" if "0 < previous_id c"
    proof -
      from assms that have "status_of c (previous_id c) \<noteq> None"
        by (simp add: coordinator_inv_def)
      then obtain s where s: "status_of c (previous_id c) = Some s" by auto
      with False have "s \<noteq> PENDING" by (simp add: is_pending_def)
      with s show ?thesis by (cases s) (simp_all add: finished_def)
    qed
    have "finished c n" if "0 < n" "n < previous_id c + 1" for n
    proof (cases "n = previous_id c")
      case True
      then show ?thesis using last that by simp
    next
      case False
      then show ?thesis using assms that by (simp add: coordinator_inv_def)
    qed
    then show ?thesis
      using assms False Trigger
      by (auto simp: coordinator_inv_def finished_def)
  qed
next
  case (Acknowledged acks)
  show ?thesis
    using assms Acknowledged
    by (auto simp: coordinator_inv_def finished_def is_pending_def)
next
  case Timeout
  show ?thesis
    using assms Timeout
    by (auto simp: coordinator_inv_def finished_def is_pending_def)
qed

lemma coordinator_inv_foldl:
  "coordinator_inv c \<Longrightarrow> coordinator_inv (foldl coordinator_step c evs)"
  by (induction evs arbitrary: c) (simp_all add: coordinator_inv_step)

lemma coordinator_inv_run: "coordinator_inv (coordinator_run evs)"
  by (simp add: coordinator_run_def coordinator_inv_foldl coordinator_inv_init)

lemma inv_pending_is_last:
  assumes "coordinator_inv c" "status_of c n = Some PENDING"
  shows "n = previous_id c"
proof (rule ccontr)
  assume ne: "n \<noteq> previous_id c"
  from assms have "0 < n \<and> n \<le> previous_id c"
    by (metis coordinator_inv_def option.distinct(1))
  with ne have "0 < n \<and> n < previous_id c" by simp
  with assms(1) have "finished c n" by (simp add: coordinator_inv_def)
  with assms(2) show False by (simp add: finished_def)
qed

lemma inv_next_begun:
  assumes "coordinator_inv c" "0 < n" "status_of c (Suc n) \<noteq> None"
  shows "finished c n"
proof -
  from assms(1,3) have "Suc n \<le> previous_id c"
    by (simp add: coordinator_inv_def)
  with assms(1,2) show ?thesis by (simp add: coordinator_inv_def)
qed

lemma step_begins:
  assumes "coordinator_inv c" "0 < n" "status_of c (Suc n) = None"
    "status_of (coordinator_step c e) (Suc n) \<noteq> None"
  shows "finished c n"
proof (cases e)
  case Trigger
  with assms(3,4) have np: "\<not> is_pending c" and eq: "Suc n = previous_id c + 1"
    by (auto split: if_splits)
  from eq have n: "n = previous_id c" by simp
  from assms(1,2) n have "status_of c n \<noteq> None" by (simp add: coordinator_inv_def)
  then obtain s where s: "status_of c n = Some s" by auto
  with np n have "s \<noteq> PENDING" by (simp add: is_pending_def)
  with s show ?thesis by (cases s) (simp_all add: finished_def)
next
  case (Acknowledged acks)
  with assms(3,4) show ?thesis by (auto simp: is_pending_def split: if_splits)
next
  case Timeout
  with assms(3,4) show ?thesis by (auto simp: is_pending_def split: if_splits)
qed

text \<open>
  C3. For the coordinator of the specification, after any sequence of triggers,
  acknowledgements and timeouts: at most one checkpoint is \<open>PENDING\<close>; when
  checkpoint \<open>n + 1\<close> has begun, checkpoint \<open>n\<close> has reached \<open>DURABLE\<close> or
  \<open>ABORTED\<close>; and in the very step that begins checkpoint \<open>n + 1\<close>,
  checkpoint \<open>n\<close> had reached one of them before the step.
\<close>

theorem checkpoints_totally_ordered:
  "(status_of (coordinator_run evs) m = Some PENDING
      \<and> status_of (coordinator_run evs) n = Some PENDING \<longrightarrow> m = n)
   \<and> (0 < n \<and> status_of (coordinator_run evs) (Suc n) \<noteq> None
        \<longrightarrow> finished (coordinator_run evs) n)
   \<and> (0 < n \<and> status_of (coordinator_run evs) (Suc n) = None
        \<and> status_of (coordinator_step (coordinator_run evs) e) (Suc n) \<noteq> None
        \<longrightarrow> finished (coordinator_run evs) n)"
  using inv_pending_is_last [OF coordinator_inv_run, of evs m]
    inv_pending_is_last [OF coordinator_inv_run, of evs n]
    inv_next_begun [OF coordinator_inv_run, of n evs]
    step_begins [OF coordinator_inv_run, of n evs e]
  by blast

theorem checkpoints_totally_ordered_witness:
  "status_of (coordinator_run [Trigger, Trigger, Acknowledged [True, True], Trigger]) 2
     = Some PENDING
   \<and> finished (coordinator_run [Trigger, Trigger, Acknowledged [True, True], Trigger]) 1
   \<and> status_of (coordinator_run [Trigger, Trigger, Acknowledged [True, True]]) 2 = None
   \<and> status_of (coordinator_step (coordinator_run [Trigger, Trigger, Acknowledged [True, True]])
        Trigger) 2 = Some PENDING
   \<and> finished (coordinator_run [Trigger, Trigger, Acknowledged [True, True]]) 1"
proof -
  have a: "status_of (coordinator_run [Trigger, Trigger, Acknowledged [True, True], Trigger])
      (Suc 1) = Some PENDING"
    by (simp add: coordinator_run_def coordinator_init_def is_pending_def)
  have b: "status_of (coordinator_run [Trigger, Trigger, Acknowledged [True, True]]) (Suc 1) = None"
    by (simp add: coordinator_run_def coordinator_init_def is_pending_def)
  have c: "status_of (coordinator_step (coordinator_run [Trigger, Trigger, Acknowledged [True, True]])
        Trigger) (Suc 1) = Some PENDING"
    by (simp add: coordinator_run_def coordinator_init_def is_pending_def)
  have d: "finished (coordinator_run [Trigger, Trigger, Acknowledged [True, True], Trigger]) 1"
    using checkpoints_totally_ordered
      [of "[Trigger, Trigger, Acknowledged [True, True], Trigger]" 1 1 Trigger] a
    by simp
  have e: "finished (coordinator_run [Trigger, Trigger, Acknowledged [True, True]]) 1"
    using checkpoints_totally_ordered
      [of "[Trigger, Trigger, Acknowledged [True, True]]" 1 1 Trigger] b c
    by simp
  have two: "(2::nat) = Suc 1" by simp
  show ?thesis unfolding two using a b c d e by blast
qed

subsection \<open>The commit policy of the specification\<close>

lemma write_marker_twice:
  "write_marker t2 (write_marker t1 ms kc) kc = write_marker t1 ms kc"
  by (simp add: write_marker_def marker_key_def)

lemma write_marker_keys:
  "set (map marker_key (write_marker now ms kc)) = insert kc (set (map marker_key ms))"
  by (auto simp: write_marker_def marker_key_def)

lemma write_marker_distinct:
  "distinct (map marker_key ms) \<Longrightarrow> distinct (map marker_key (write_marker now ms kc))"
  by (auto simp: write_marker_def marker_key_def)

lemma foldl_write_marker_distinct:
  "distinct (map marker_key ms) \<Longrightarrow>
   distinct (map marker_key (foldl (write_marker now) ms kcs))"
  by (induction kcs arbitrary: ms) (simp_all add: write_marker_distinct)

lemma commit_keeps:
  "last_durable_checkpoint (commit st now) = last_durable_checkpoint st
   \<and> durable_time (commit st now) = durable_time st
   \<and> commit_delay (commit st now) = commit_delay st"
  by (simp add: commit_def)

lemma eligible_commit:
  "eligible (commit st now) now s = eligible st now s"
  unfolding eligible_def by (simp only: commit_keeps)

lemma not_eligible_after:
  "\<not> eligible st now (if eligible st now s then s\<lparr>state := COMMITTED\<rparr> else s)"
  by (simp add: eligible_def)

lemma no_eligible_after_commit:
  "filter (eligible (commit st now) now) (segments (commit st now)) = []"
proof -
  have "\<not> eligible (commit st now) now s'" if "s' \<in> set (segments (commit st now))" for s'
  proof -
    define f where "f = (\<lambda>s. if eligible st now s then s\<lparr>state := COMMITTED\<rparr> else s)"
    have "segments (commit st now) = map f (segments st)"
      by (simp add: commit_def f_def)
    with that obtain s where "s' = f s" by auto
    then show ?thesis
      using not_eligible_after [of st now s] by (simp add: eligible_commit f_def)
  qed
  then show ?thesis by (simp add: filter_empty_conv)
qed

lemma evaluate_after_commit: "evaluate (commit st now) now = []"
  by (simp add: evaluate_def no_eligible_after_commit)

lemma segments_after_commit:
  "map (\<lambda>s. if eligible (commit st now) now s then s\<lparr>state := COMMITTED\<rparr> else s)
       (segments (commit st now)) = segments (commit st now)"
proof -
  have "\<not> eligible (commit st now) now s'" if "s' \<in> set (segments (commit st now))" for s'
    using no_eligible_after_commit [of st now] that by (simp add: filter_empty_conv)
  then show ?thesis by (simp add: map_idI)
qed

lemma commit_twice: "commit (commit st now) now = commit st now"
proof -
  have "commit (commit st now) now =
      (commit st now)\<lparr>markers := markers (commit st now), segments := segments (commit st now)\<rparr>"
    unfolding commit_def [of "commit st now" now]
    by (simp only: evaluate_after_commit segments_after_commit foldl_Nil)
  then show ?thesis by simp
qed

text \<open>
  C4. For the commit policy of the specification: writing a marker a second time
  for the same partition key and checkpoint id changes nothing, whatever the
  time of the second write; the evaluate-and-commit step run a second time on
  the state it has produced changes nothing, so the committed set and the
  markers are the same and nothing is left to commit; and the step never writes
  two markers for one pair.
\<close>

theorem commit_idempotent:
  "write_marker t2 (write_marker t1 ms kc) kc = write_marker t1 ms kc
   \<and> commit (commit st now) now = commit st now
   \<and> committed (commit (commit st now) now) = committed (commit st now)
   \<and> markers (commit (commit st now) now) = markers (commit st now)
   \<and> evaluate (commit st now) now = []
   \<and> (distinct (map marker_key (markers st))
        \<longrightarrow> distinct (map marker_key (markers (commit st now))))"
proof -
  have d: "distinct (map marker_key (markers (commit st now)))"
    if "distinct (map marker_key (markers st))"
    using foldl_write_marker_distinct [OF that] by (simp add: commit_def)
  show ?thesis
    using write_marker_twice [of t2 t1 ms kc] commit_twice [of st now]
      evaluate_after_commit [of st now] d
    by simp
qed

theorem commit_idempotent_witness:
  "distinct (map marker_key (markers ex_persisted))
   \<and> distinct (map marker_key (markers (commit ex_persisted 101)))
   \<and> map marker_key (markers (commit ex_persisted 101)) = [(10, 1), (11, 1)]
   \<and> commit (commit ex_persisted 101) 101 = commit ex_persisted 101
   \<and> map state (segments (commit ex_persisted 101)) = [COMMITTED, COMMITTED, OPEN]"
proof -
  have a: "distinct (map marker_key (markers ex_persisted))"
    by (simp add: ex_persisted_def)
  have b: "map marker_key (markers (commit ex_persisted 101)) = [(10, 1), (11, 1)]"
    by (simp add: ex_persisted_def commit_def evaluate_def eligible_def write_marker_def
        marker_key_def)
  have c: "map state (segments (commit ex_persisted 101)) = [COMMITTED, COMMITTED, OPEN]"
    by (simp add: ex_persisted_def commit_def eligible_def)
  show ?thesis
    using commit_idempotent [of 0 0 "[]" "(10, 1)" ex_persisted 101] a b c
    by simp
qed

end
